theory Spec2Isabelle
  imports Main
begin

section \<open>Problem kinds\<close>

text \<open>
  A \<open>ProblemKind\<close> carries a Python set of feature names (strings).
\<close>

record problem_kind =
  features :: "string set"

datatype compilation_kind = DISJUNCTIVE_CONDITIONS_REMOVING | OTHER_COMPILATION string

text \<open>
  Modelled from the spec: the \<open>ProblemKind\<close> class is not part of the sources.
  Its constructor copies the given feature set into a new object, and
  \<open>unset_conditions_kind\<close> removes one feature name from that set.
\<close>

definition ProblemKind :: "string set \<Rightarrow> problem_kind" where
  "ProblemKind fs = \<lparr>features = fs\<rparr>"

definition unset_conditions_kind :: "problem_kind \<Rightarrow> string \<Rightarrow> problem_kind" where
  "unset_conditions_kind k feature = k\<lparr>features := features k - {feature}\<rparr>"

text \<open>
  \<open>resulting_problem_kind\<close> (a static method): the compilation kind is accepted and ignored.
\<close>

definition resulting_problem_kind :: "problem_kind \<Rightarrow> compilation_kind option \<Rightarrow> problem_kind" where
  "resulting_problem_kind problem_kind compilation_kind =
     (let new_kind = ProblemKind (features problem_kind);
          new_kind = unset_conditions_kind new_kind ''DISJUNCTIVE_CONDITIONS''
      in new_kind)"

section \<open>Expressions\<close>

text \<open>
  Expressions (\<open>FNode\<close>) are immutable formula trees. The pass looks only at the node
  kinds AND, OR, TRUE and FALSE; every other node (a fluent expression, a negated literal,
  an equality, a quantified formula) is opaque to it.
\<close>

datatype expr = TRUE | FALSE | Atom string | FluentExp string | And "expr list" | Or "expr list"

fun is_true :: "expr \<Rightarrow> bool" where
  "is_true TRUE = True"
| "is_true _ = False"

fun is_false :: "expr \<Rightarrow> bool" where
  "is_false FALSE = True"
| "is_false _ = False"

fun is_and :: "expr \<Rightarrow> bool" where
  "is_and (And _) = True"
| "is_and _ = False"

fun is_or :: "expr \<Rightarrow> bool" where
  "is_or (Or _) = True"
| "is_or _ = False"

fun args :: "expr \<Rightarrow> expr list" where
  "args (And xs) = xs"
| "args (Or xs) = xs"
| "args _ = []"

section \<open>Effects, actions, problems\<close>

text \<open>
  An effect assigns \<open>eff_value\<close> (the source's field \<open>value\<close>) to \<open>fluent\<close> under the
  guard \<open>condition\<close>; the guard TRUE denotes an unconditional effect.
\<close>

record effect =
  fluent :: expr
  eff_value :: expr
  condition :: expr

definition Effect :: "expr \<Rightarrow> expr \<Rightarrow> expr \<Rightarrow> effect" where
  "Effect f v c = \<lparr>fluent = f, eff_value = v, condition = c\<rparr>"

definition is_conditional :: "effect \<Rightarrow> bool" where
  "is_conditional e = (\<not> is_true (condition e))"

definition set_condition :: "effect \<Rightarrow> expr \<Rightarrow> effect" where
  "set_condition e c = e\<lparr>condition := c\<rparr>"

datatype timepoint_kind = GLOBAL_START | GLOBAL_END | START | END

datatype timing = Timing int timepoint_kind

datatype time_interval = TimeInterval timing timing bool bool

datatype up_type = BoolType | IntType | RealType | UserType string

record up_fluent =
  fluent_name :: string
  fluent_type :: up_type

definition Fluent :: "string \<Rightarrow> up_fluent" where
  "Fluent n = \<lparr>fluent_name = n, fluent_type = BoolType\<rparr>"

text \<open>
  Python dictionaries keep insertion order, and the pass iterates over them: the condition
  map and the effect map of a durative action and the timed goals of a problem are
  association lists.
\<close>

record instantaneous_action =
  name :: string
  parameters :: "(string \<times> up_type) list"
  preconditions :: "expr list"
  effects :: "effect list"

record durative_action =
  d_name :: string
  d_parameters :: "(string \<times> up_type) list"
  duration :: "expr \<times> expr"
  conditions :: "(time_interval \<times> expr list) list"
  d_effects :: "(timing \<times> effect list) list"

datatype action =
    InstantaneousAction instantaneous_action
  | DurativeAction durative_action
  | OtherAction string

fun action_name :: "action \<Rightarrow> string" where
  "action_name (InstantaneousAction a) = name a"
| "action_name (DurativeAction a) = d_name a"
| "action_name (OtherAction n) = n"

record problem =
  p_name :: string
  fluents :: "up_fluent list"
  fluents_defaults :: "(up_fluent \<times> expr) list"
  objects :: "string list"
  actions :: "action list"
  goals :: "expr list"
  timed_goals :: "(time_interval \<times> expr list) list"

text \<open>
  Modelled from the spec: the problem and action classes are not part of the sources.
  Their mutators append to the list they own (\<open>add_action\<close>, \<open>add_fluent\<close>,
  \<open>add_goal\<close>, \<open>add_precondition\<close>, \<open>_add_effect_instance\<close>) or, for the maps keyed
  by an interval or a timing, append to the entry of the key and create the entry when
  the key is new (\<open>add_condition\<close>, \<open>add_timed_goal\<close>, the durative
  \<open>_add_effect_instance\<close>). \<open>has_name\<close> looks a name up in the namespace of the problem:
  its fluents, its objects and its actions.
\<close>

fun assoc_append :: "'k \<Rightarrow> 'v \<Rightarrow> ('k \<times> 'v list) list \<Rightarrow> ('k \<times> 'v list) list" where
  "assoc_append k v [] = [(k, [v])]"
| "assoc_append k v ((k', vs) # rest) =
     (if k = k' then (k', vs @ [v]) # rest else (k', vs) # assoc_append k v rest)"

definition add_precondition :: "instantaneous_action \<Rightarrow> expr \<Rightarrow> instantaneous_action" where
  "add_precondition a c = a\<lparr>preconditions := preconditions a @ [c]\<rparr>"

definition add_effect_instance :: "instantaneous_action \<Rightarrow> effect \<Rightarrow> instantaneous_action" where
  "add_effect_instance a e = a\<lparr>effects := effects a @ [e]\<rparr>"

definition add_effect :: "instantaneous_action \<Rightarrow> up_fluent \<Rightarrow> expr \<Rightarrow> instantaneous_action" where
  "add_effect a f v = add_effect_instance a (Effect (FluentExp (fluent_name f)) v TRUE)"

definition new_instantaneous_action :: "string \<Rightarrow> instantaneous_action" where
  "new_instantaneous_action n = \<lparr>name = n, parameters = [], preconditions = [], effects = []\<rparr>"

definition add_condition :: "durative_action \<Rightarrow> time_interval \<Rightarrow> expr \<Rightarrow> durative_action" where
  "add_condition a i c = a\<lparr>conditions := assoc_append i c (conditions a)\<rparr>"

definition d_add_effect_instance :: "durative_action \<Rightarrow> timing \<Rightarrow> effect \<Rightarrow> durative_action" where
  "d_add_effect_instance a t e = a\<lparr>d_effects := assoc_append t e (d_effects a)\<rparr>"

definition has_name :: "problem \<Rightarrow> string \<Rightarrow> bool" where
  "has_name p n =
     (n \<in> set (map fluent_name (fluents p)) \<or> n \<in> set (objects p)
      \<or> n \<in> set (map action_name (actions p)))"

definition add_action :: "problem \<Rightarrow> action \<Rightarrow> problem" where
  "add_action p a = p\<lparr>actions := actions p @ [a]\<rparr>"

definition add_fluent :: "problem \<Rightarrow> up_fluent \<Rightarrow> expr \<Rightarrow> problem" where
  "add_fluent p f default_initial_value =
     p\<lparr>fluents := fluents p @ [f],
       fluents_defaults := fluents_defaults p @ [(f, default_initial_value)]\<rparr>"

definition add_goal :: "problem \<Rightarrow> expr \<Rightarrow> problem" where
  "add_goal p g = p\<lparr>goals := goals p @ [g]\<rparr>"

definition add_timed_goal :: "problem \<Rightarrow> time_interval \<Rightarrow> expr \<Rightarrow> problem" where
  "add_timed_goal p t g = p\<lparr>timed_goals := assoc_append t g (timed_goals p)\<rparr>"

section \<open>The external collaborators\<close>

text \<open>
  The formula engine and the name allocator are not part of the sources; the pass only
  calls them. They are parameters of the model: \<open>em_And\<close> is the expression manager's
  conjunction of a list, \<open>get_dnf_expression\<close> the DNF walker, \<open>simplify\<close> the
  simplifier, and \<open>get_fresh_name\<close> the allocator of names that are new in a problem.
\<close>

record externals =
  em_And :: "expr list \<Rightarrow> expr"
  get_dnf_expression :: "expr \<Rightarrow> expr"
  simplify :: "expr \<Rightarrow> expr"
  get_fresh_name :: "problem \<Rightarrow> string \<Rightarrow> string"

section \<open>The variant builders\<close>

text \<open>
  The body of the loop over the effects of the original action (the same in both
  builders): an unconditional effect is added as it is; the guard of a conditional one is
  normalised and simplified, and the effect is added once per disjunct of an OR, once
  with the simplified guard when that is neither OR nor FALSE, and not at all when it is
  FALSE. The parameter \<open>add\<close> is the builder's own \<open>_add_effect_instance\<close>.
\<close>

definition add_effect_variants :: "externals \<Rightarrow> ('a \<Rightarrow> effect \<Rightarrow> 'a) \<Rightarrow> effect \<Rightarrow> 'a \<Rightarrow> 'a" where
  "add_effect_variants ext add e new_action =
     (if is_conditional e then
        (let new_cond = simplify ext (get_dnf_expression ext (condition e)) in
         if is_or new_cond then
           fold (\<lambda>and_exp a. add a (set_condition e and_exp)) (args new_cond) new_action
         else if \<not> is_false new_cond then add new_action (set_condition e new_cond)
         else new_action)
      else add new_action e)"

definition create_new_action_with_given_precond ::
  "externals \<Rightarrow> problem \<Rightarrow> expr \<Rightarrow> instantaneous_action \<Rightarrow> instantaneous_action option" where
  "create_new_action_with_given_precond ext new_problem precond original_action =
     (let new_action = original_action\<lparr>name := get_fresh_name ext new_problem (name original_action)\<rparr>;
          new_action = new_action\<lparr>preconditions := []\<rparr>;
          precond = simplify ext precond
      in if is_false precond then None
         else
           (let new_action =
                  (if is_and precond then fold (\<lambda>leaf a. add_precondition a leaf) (args precond) new_action
                   else add_precondition new_action precond);
                new_action = new_action\<lparr>effects := []\<rparr>;
                new_action =
                  fold (add_effect_variants ext add_effect_instance) (effects original_action) new_action
            in if length (effects new_action) = 0 then None else Some new_action))"

text \<open>The loop over the zipped intervals and chosen disjuncts, with its early return.\<close>

fun add_conditions ::
  "externals \<Rightarrow> (time_interval \<times> expr) list \<Rightarrow> durative_action \<Rightarrow> durative_action option" where
  "add_conditions ext [] new_action = Some new_action"
| "add_conditions ext ((i, c) # rest) new_action =
     (let c = simplify ext c
      in if is_false c then None
         else if is_and c then
           add_conditions ext rest (fold (\<lambda>co a. add_condition a i co) (args c) new_action)
         else add_conditions ext rest (add_condition new_action i c))"

definition create_new_durative_action_with_given_conds_at_given_times ::
  "externals \<Rightarrow> problem \<Rightarrow> time_interval list \<Rightarrow> expr list \<Rightarrow> durative_action
     \<Rightarrow> durative_action option" where
  "create_new_durative_action_with_given_conds_at_given_times ext new_problem interval_list
       cond_list original_action =
     (let new_action = original_action\<lparr>d_name := get_fresh_name ext new_problem (d_name original_action)\<rparr>;
          new_action = new_action\<lparr>conditions := []\<rparr>
      in case add_conditions ext (zip interval_list cond_list) new_action of
           None \<Rightarrow> None
         | Some new_action \<Rightarrow>
             (let new_action = new_action\<lparr>d_effects := []\<rparr>;
                  new_action =
                    fold (\<lambda>(t, el) a.
                            fold (add_effect_variants ext (\<lambda>a e. d_add_effect_instance a t e)) el a)
                      (d_effects original_action) new_action
              in if length (d_effects new_action) = 0 then None else Some new_action))"

section \<open>The compilation\<close>

text \<open>
  The translation map is a Python dictionary keyed by actions, which hash and compare by
  content: a map from action values to the original action, or to \<open>None\<close> for a
  synthetic action.
\<close>

type_synonym translation = "action \<rightharpoonup> action option"

record compile_state =
  new_problem :: problem
  new_to_old :: translation
  new_fluents :: "up_fluent list"

datatype error = NotImplementedError | KeyError

text \<open>\<open>if na is not None: new_to_old[na] = a; new_problem.add_action(na)\<close>\<close>

definition record_action :: "action option \<Rightarrow> action option \<Rightarrow> compile_state \<Rightarrow> compile_state" where
  "record_action na old st =
     (case na of
        None \<Rightarrow> st
      | Some n \<Rightarrow> st\<lparr>new_to_old := (new_to_old st)(n \<mapsto> old),
                      new_problem := add_action (new_problem st) n\<rparr>)"

definition split_instantaneous :: "externals \<Rightarrow> instantaneous_action \<Rightarrow> expr \<Rightarrow> compile_state \<Rightarrow> compile_state" where
  "split_instantaneous ext a precond st =
     record_action
       (map_option InstantaneousAction
          (create_new_action_with_given_precond ext (new_problem st) precond a))
       (Some (InstantaneousAction a)) st"

definition split_durative ::
  "externals \<Rightarrow> time_interval list \<Rightarrow> durative_action \<Rightarrow> expr list \<Rightarrow> compile_state \<Rightarrow> compile_state" where
  "split_durative ext interval_list a cond_list st =
     record_action
       (map_option DurativeAction
          (create_new_durative_action_with_given_conds_at_given_times ext (new_problem st)
             interval_list cond_list a))
       (Some (DurativeAction a)) st"

text \<open>The disjuncts kept for one interval: the arguments of an OR, else the formula alone.\<close>

definition disjuncts_of :: "externals \<Rightarrow> expr list \<Rightarrow> expr list" where
  "disjuncts_of ext cl =
     (let new_cond = get_dnf_expression ext (em_And ext cl)
      in if is_or new_cond then args new_cond else [new_cond])"

text \<open>
  The body of the loop over the source actions. \<open>itertools.product\<close> enumerates the
  tuples with the rightmost position varying fastest, as \<open>product_lists\<close> does.
\<close>

definition compile_action :: "externals \<Rightarrow> action \<Rightarrow> compile_state \<Rightarrow> error + compile_state" where
  "compile_action ext a st =
     (case a of
        InstantaneousAction ia \<Rightarrow>
          (let new_precond = get_dnf_expression ext (em_And ext (preconditions ia))
           in if is_or new_precond then Inr (fold (split_instantaneous ext ia) (args new_precond) st)
              else Inr (split_instantaneous ext ia new_precond st))
      | DurativeAction da \<Rightarrow>
          (let interval_list = map fst (conditions da);
               conds = map (\<lambda>(i, cl). disjuncts_of ext cl) (conditions da);
               conditions_tuple = product_lists conds
           in Inr (fold (split_durative ext interval_list da) conditions_tuple st))
      | OtherAction n \<Rightarrow> Inl NotImplementedError)"

fun compile_actions :: "externals \<Rightarrow> action list \<Rightarrow> compile_state \<Rightarrow> error + compile_state" where
  "compile_actions ext [] st = Inr st"
| "compile_actions ext (a # rest) st =
     (case compile_action ext a st of
        Inl e \<Rightarrow> Inl e
      | Inr st' \<Rightarrow> compile_actions ext rest st')"

definition install_goal :: "time_interval option \<Rightarrow> expr \<Rightarrow> compile_state \<Rightarrow> compile_state" where
  "install_goal timing g st =
     (case timing of
        None \<Rightarrow> st\<lparr>new_problem := add_goal (new_problem st) g\<rparr>
      | Some t \<Rightarrow> st\<lparr>new_problem := add_timed_goal (new_problem st) t g\<rparr>)"

definition remove_disjunctions_from_goals_adding_new_elements ::
  "externals \<Rightarrow> expr list \<Rightarrow> time_interval option \<Rightarrow> compile_state \<Rightarrow> compile_state" where
  "remove_disjunctions_from_goals_adding_new_elements ext goal_list timing st =
     (let new_goal = get_dnf_expression ext (em_And ext goal_list)
      in if is_or new_goal then
           (let new_name = (case timing of None \<Rightarrow> ''dcrm'' | Some t \<Rightarrow> ''dcrm_timed'');
                fake_fluent = Fluent (get_fresh_name ext (new_problem st) (new_name @ ''_fake_goal''));
                fake_action = new_instantaneous_action (new_name @ ''_fake_action'');
                fake_action = add_effect fake_action fake_fluent TRUE;
                st1 = fold (\<lambda>and_exp s.
                              record_action
                                (map_option InstantaneousAction
                                   (create_new_action_with_given_precond ext (new_problem s) and_exp
                                      fake_action))
                                None s)
                        (args new_goal) st;
                st2 = st1\<lparr>new_problem := add_fluent (new_problem st1) fake_fluent FALSE\<rparr>;
                st3 = st2\<lparr>new_fluents := new_fluents st2 @ [fake_fluent]\<rparr>
            in install_goal timing (FluentExp (fluent_name fake_fluent)) st3)
         else install_goal timing new_goal st)"

text \<open>
  The reset injection on one meaningful action: every new effect is added to an
  instantaneous action, and to a durative action at every timing of its effect map.
\<close>

definition inject_resets :: "effect list \<Rightarrow> action \<Rightarrow> error + action" where
  "inject_resets new_effects a =
     (case a of
        InstantaneousAction ia \<Rightarrow>
          Inr (InstantaneousAction (fold (\<lambda>e a. add_effect_instance a e) new_effects ia))
      | DurativeAction da \<Rightarrow>
          Inr (DurativeAction
                 (fold (\<lambda>tim a. fold (\<lambda>e a. d_add_effect_instance a tim e) new_effects a)
                    (map fst (d_effects da)) da))
      | OtherAction n \<Rightarrow> Inl NotImplementedError)"

text \<open>
  The list \<open>meaningful_actions\<close> is a copy of the action list of the new problem taken
  before the goals are rewritten: it holds the same objects, and the witness actions are
  appended behind them. Element \<open>i\<close> of the copy is element \<open>i\<close> of the problem's list, so
  mutating the one mutates the other: the loop runs over the indices of the copy and
  writes the mutated action back to its place. \<open>dict.pop\<close> raises \<open>KeyError\<close> on a
  missing key.
\<close>

fun inject_loop :: "effect list \<Rightarrow> nat list \<Rightarrow> compile_state \<Rightarrow> error + compile_state" where
  "inject_loop new_effects [] st = Inr st"
| "inject_loop new_effects (i # rest) st =
     (let a = actions (new_problem st) ! i
      in case new_to_old st a of
           None \<Rightarrow> Inl KeyError
         | Some old_action \<Rightarrow>
             (case inject_resets new_effects a of
                Inl e \<Rightarrow> Inl e
              | Inr a' \<Rightarrow>
                  inject_loop new_effects rest
                    (st\<lparr>new_problem :=
                          (new_problem st)\<lparr>actions := (actions (new_problem st))[i := a']\<rparr>,
                        new_to_old := ((new_to_old st)(a := None))(a' \<mapsto> old_action)\<rparr>)))"

record compiler_result =
  res_problem :: problem
  res_map :: translation
  engine_name :: string

definition compile :: "externals \<Rightarrow> problem \<Rightarrow> compilation_kind \<Rightarrow> error + compiler_result" where
  "compile ext problem compilation_kind =
     (let st0 = \<lparr>new_problem =
                   problem\<lparr>p_name := ''dcrm_'' @ p_name problem, actions := [], goals := [],
                     timed_goals := []\<rparr>,
                 new_to_old = Map.empty, new_fluents = []\<rparr>
      in case compile_actions ext (actions problem) st0 of
           Inl e \<Rightarrow> Inl e
         | Inr st1 \<Rightarrow>
             (let meaningful = length (actions (new_problem st1));
                  st2 = remove_disjunctions_from_goals_adding_new_elements ext (goals problem) None st1;
                  st3 = fold (\<lambda>(t, gl). remove_disjunctions_from_goals_adding_new_elements ext gl (Some t))
                          (timed_goals problem) st2;
                  new_effects =
                    map (\<lambda>f. Effect (FluentExp (fluent_name f)) FALSE TRUE) (new_fluents st3)
              in case inject_loop new_effects [0..<meaningful] st3 of
                   Inl e \<Rightarrow> Inl e
                 | Inr st4 \<Rightarrow>
                     Inr \<lparr>res_problem = new_problem st4, res_map = new_to_old st4,
                          engine_name = ''dcrm''\<rparr>))"

section \<open>Properties\<close>

text \<open>
  C8: for every input problem kind (and whatever compilation kind is passed),
  \<open>resulting_problem_kind\<close> returns exactly the input's feature set without the
  feature DISJUNCTIVE_CONDITIONS: that feature is absent from the result, and every
  other feature is in the result exactly when it is in the input.
\<close>

theorem resulting_problem_kind_features:
  "features (resulting_problem_kind k ck) = features k - {''DISJUNCTIVE_CONDITIONS''}
   \<and> ''DISJUNCTIVE_CONDITIONS'' \<notin> features (resulting_problem_kind k ck)
   \<and> (\<forall>f. f \<noteq> ''DISJUNCTIVE_CONDITIONS'' \<longrightarrow>
          (f \<in> features (resulting_problem_kind k ck)) = (f \<in> features k))"
  by (simp add: resulting_problem_kind_def ProblemKind_def unset_conditions_kind_def)

theorem resulting_problem_kind_features_witness:
  "features (resulting_problem_kind
       \<lparr>features = {''ACTION_BASED'', ''DISJUNCTIVE_CONDITIONS'', ''EQUALITY''}\<rparr> None)
     = {''ACTION_BASED'', ''EQUALITY''}"
  using resulting_problem_kind_features
    [of "\<lparr>features = {''ACTION_BASED'', ''DISJUNCTIVE_CONDITIONS'', ''EQUALITY''}\<rparr>" None]
  by auto

end
